theory Spec2Isabelle
  imports Main "HOL-Library.Word" "HOL-Library.Signed_Division"
begin

unbundle bit_operations_syntax

section \<open>Claim validators of the jwt package (validators.go)\<close>

subsection \<open>Errors\<close>

text \<open>
  Go's \<^verbatim>\<open>errors.New(text)\<close>. The package compares its error values by identity; the
  seven values it declares carry seven different texts, so for them comparing the
  texts decides the same equalities. \<open>None\<close> of type \<open>error option\<close> is Go's \<^verbatim>\<open>nil\<close>.
\<close>

datatype error = errors_New string

definition ErrAudValidation :: error where
  "ErrAudValidation = errors_New ''jwt: aud claim is invalid''"

definition ErrExpValidation :: error where
  "ErrExpValidation = errors_New ''jwt: exp claim is invalid''"

definition ErrIatValidation :: error where
  "ErrIatValidation = errors_New ''jwt: iat claim is invalid''"

definition ErrIssValidation :: error where
  "ErrIssValidation = errors_New ''jwt: iss claim is invalid''"

definition ErrJtiValidation :: error where
  "ErrJtiValidation = errors_New ''jwt: jti claim is invalid''"

definition ErrNbfValidation :: error where
  "ErrNbfValidation = errors_New ''jwt: nbf claim is invalid''"

definition ErrSubValidation :: error where
  "ErrSubValidation = errors_New ''jwt: sub claim is invalid''"

text \<open>The \<^verbatim>\<open>var ( ... )\<close> block of validators.go, in the order of its declarations.\<close>

definition package_errors :: "error list" where
  "package_errors =
     [ErrAudValidation, ErrExpValidation, ErrIatValidation, ErrIssValidation,
      ErrJtiValidation, ErrNbfValidation, ErrSubValidation]"

subsection \<open>The payload\<close>

text \<open>
  Modelled from the spec: the declarations of the types \<^verbatim>\<open>Payload\<close> and \<^verbatim>\<open>Audience\<close> are
  not in validators.go. The fields are those the validators read; the three
  timestamps are \<^verbatim>\<open>int64\<close> (they are passed to \<^verbatim>\<open>time.Unix\<close>), an audience is a
  sequence of strings.
\<close>

type_synonym int64 = "64 word"
type_synonym Audience = "string list"

record Payload =
  Issuer :: string
  Subject :: string
  Audience :: Audience
  ExpirationTime :: int64
  IssuedAt :: int64
  NotBefore :: int64
  JWTID :: string

subsection \<open>The part of Go's package time that the validators call\<close>

text \<open>
  A \<^verbatim>\<open>time.Time\<close> is the pair of \<^verbatim>\<open>wall\<close> (\<^verbatim>\<open>uint64\<close>) and \<^verbatim>\<open>ext\<close> (\<^verbatim>\<open>int64\<close>); its
  third field, the location, is read by none of the functions below. Without a
  monotonic reading \<^verbatim>\<open>ext\<close> is the number of seconds since January 1 of year 1 and
  the low 30 bits of \<^verbatim>\<open>wall\<close> are the nanoseconds. Signed machine integers are
  words compared with \<open><s\<close>; \<open>+\<close> wraps around as Go's does.
\<close>

record Time =
  wall :: "64 word"
  ext :: int64

definition hasMonotonic :: "64 word" where
  "hasMonotonic = push_bit 63 1"

definition nsecMask :: "64 word" where
  "nsecMask = push_bit 30 1 - 1"

definition nsecShift :: nat where
  "nsecShift = 30"

definition secondsPerDay :: int64 where
  "secondsPerDay = 86400"

definition unixToInternal :: int64 where
  "unixToInternal = (1969 * 365 + 1969 div 4 - 1969 div 100 + 1969 div 400) * secondsPerDay"

definition wallToInternal :: int64 where
  "wallToInternal = (1884 * 365 + 1884 div 4 - 1884 div 100 + 1884 div 400) * secondsPerDay"

definition nsec :: "Time \<Rightarrow> 32 word" where
  "nsec t = ucast (wall t AND nsecMask)"

definition sec :: "Time \<Rightarrow> int64" where
  "sec t =
     (if wall t AND hasMonotonic \<noteq> 0
      then wallToInternal + drop_bit (nsecShift + 1) (push_bit 1 (wall t))
      else ext t)"

definition After :: "Time \<Rightarrow> Time \<Rightarrow> bool" where
  "After t u =
     (if wall t AND wall u AND hasMonotonic \<noteq> 0 then ext u <s ext t
      else (let ts = sec t; us = sec u
            in us <s ts \<or> ts = us \<and> nsec u <s nsec t))"

definition Before :: "Time \<Rightarrow> Time \<Rightarrow> bool" where
  "Before t u =
     (if wall t AND wall u AND hasMonotonic \<noteq> 0 then ext t <s ext u
      else (let ts = sec t; us = sec u
            in ts <s us \<or> ts = us \<and> nsec t <s nsec u))"

definition unixTime :: "int64 \<Rightarrow> 32 word \<Rightarrow> Time" where
  "unixTime s n = \<lparr>wall = scast n, ext = s + unixToInternal\<rparr>"

definition Unix :: "int64 \<Rightarrow> int64 \<Rightarrow> Time" where
  "Unix s n =
     (if n <s 0 \<or> 1000000000 \<le>s n then
        (let q = word_of_int (sint n sdiv 1000000000) :: int64;
             s1 = s + q;
             n1 = n - q * 1000000000
         in if n1 <s 0 then unixTime (s1 - 1) (ucast (n1 + 1000000000))
            else unixTime s1 (ucast n1))
      else unixTime s (ucast n))"

subsection \<open>The validators\<close>

text \<open>
  A \<^verbatim>\<open>ValidatorFunc\<close> is \<^verbatim>\<open>func(*Payload) error\<close>: it receives the payload by
  reference, so the model passes the payload in and returns the error (\<open>None\<close> for
  \<^verbatim>\<open>nil\<close>) together with the payload as the call leaves it.
\<close>

type_synonym ValidatorFunc = "Payload \<Rightarrow> error option \<times> Payload"

text \<open>
  The two nested \<^verbatim>\<open>range\<close> loops of \<^verbatim>\<open>AudienceValidator\<close>; each returns whether
  \<^verbatim>\<open>return nil\<close> was reached.
\<close>

fun AudienceValidator_inner :: "string \<Rightarrow> string list \<Rightarrow> bool" where
  "AudienceValidator_inner serverAud [] = False"
| "AudienceValidator_inner serverAud (clientAud # rest) =
     (if clientAud = serverAud then True else AudienceValidator_inner serverAud rest)"

fun AudienceValidator_outer :: "string list \<Rightarrow> string list \<Rightarrow> bool" where
  "AudienceValidator_outer [] clientAuds = False"
| "AudienceValidator_outer (serverAud # rest) clientAuds =
     (if AudienceValidator_inner serverAud clientAuds then True
      else AudienceValidator_outer rest clientAuds)"

definition AudienceValidator :: "Audience \<Rightarrow> ValidatorFunc" where
  "AudienceValidator aud p =
     (if AudienceValidator_outer aud (Audience p) then (None, p)
      else (Some ErrAudValidation, p))"

definition ExpirationTimeValidator :: "Time \<Rightarrow> bool \<Rightarrow> ValidatorFunc" where
  "ExpirationTimeValidator now validateZero p =
     (let expint = ExpirationTime p
      in if \<not> validateZero \<and> expint = 0 then (None, p)
         else if After now (Unix expint 0) then (Some ErrExpValidation, p)
         else (None, p))"

definition IssuedAtValidator :: "Time \<Rightarrow> ValidatorFunc" where
  "IssuedAtValidator now p =
     (if Before now (Unix (IssuedAt p) 0) then (Some ErrIatValidation, p) else (None, p))"

definition IssuerValidator :: "string \<Rightarrow> ValidatorFunc" where
  "IssuerValidator iss p =
     (if Issuer p \<noteq> iss then (Some ErrIssValidation, p) else (None, p))"

definition JWTIDValidator :: "string \<Rightarrow> ValidatorFunc" where
  "JWTIDValidator jti p =
     (if JWTID p \<noteq> jti then (Some ErrJtiValidation, p) else (None, p))"

definition NotBeforeValidator :: "Time \<Rightarrow> ValidatorFunc" where
  "NotBeforeValidator now p =
     (if Before now (Unix (NotBefore p) 0) then (Some ErrNbfValidation, p) else (None, p))"

definition SubjectValidator :: "string \<Rightarrow> ValidatorFunc" where
  "SubjectValidator sub p =
     (if Subject p \<noteq> sub then (Some ErrSubValidation, p) else (None, p))"

subsection \<open>Closures\<close>

text \<open>
  Each factory returns a closure over its parameters. Go captures them as
  variables, which the body could assign to, and a body could read the wall clock
  with \<^verbatim>\<open>time.Now\<close>. A call therefore takes the closure with its captured values, a
  reading of the wall clock and the payload, and returns the error, the closure as
  the call leaves it and the payload as the call leaves it. No body in
  validators.go assigns to a captured variable or calls \<^verbatim>\<open>time.Now\<close>: every equation
  returns the captured values it was given and does not use the clock.
\<close>

datatype closure =
    AudienceValidator_closure Audience
  | ExpirationTimeValidator_closure Time bool
  | IssuedAtValidator_closure Time
  | IssuerValidator_closure string
  | JWTIDValidator_closure string
  | NotBeforeValidator_closure Time
  | SubjectValidator_closure string

fun call :: "closure \<Rightarrow> Time \<Rightarrow> Payload \<Rightarrow> error option \<times> closure \<times> Payload" where
  "call (AudienceValidator_closure aud) clock p =
     (case AudienceValidator aud p of
        (err, p') \<Rightarrow> (err, AudienceValidator_closure aud, p'))"
| "call (ExpirationTimeValidator_closure now validateZero) clock p =
     (case ExpirationTimeValidator now validateZero p of
        (err, p') \<Rightarrow> (err, ExpirationTimeValidator_closure now validateZero, p'))"
| "call (IssuedAtValidator_closure now) clock p =
     (case IssuedAtValidator now p of
        (err, p') \<Rightarrow> (err, IssuedAtValidator_closure now, p'))"
| "call (IssuerValidator_closure iss) clock p =
     (case IssuerValidator iss p of
        (err, p') \<Rightarrow> (err, IssuerValidator_closure iss, p'))"
| "call (JWTIDValidator_closure jti) clock p =
     (case JWTIDValidator jti p of
        (err, p') \<Rightarrow> (err, JWTIDValidator_closure jti, p'))"
| "call (NotBeforeValidator_closure now) clock p =
     (case NotBeforeValidator now p of
        (err, p') \<Rightarrow> (err, NotBeforeValidator_closure now, p'))"
| "call (SubjectValidator_closure sub) clock p =
     (case SubjectValidator sub p of
        (err, p') \<Rightarrow> (err, SubjectValidator_closure sub, p'))"

subsection \<open>The pipeline\<close>

text \<open>
  Modelled from the spec: the function that runs a sequence of validators on a
  payload is not in validators.go. The spec's contract for it: given a payload and
  an ordered sequence of units, evaluate the units in the given order, stop and
  return the first failure that is not \<^verbatim>\<open>nil\<close>, and return success when all units
  pass. Each unit receives the payload as the units before it left it.
\<close>

fun pipeline :: "Payload \<Rightarrow> ValidatorFunc list \<Rightarrow> error option \<times> Payload" where
  "pipeline p [] = (None, p)"
| "pipeline p (u # us) =
     (case u p of
        (Some e, p') \<Rightarrow> (Some e, p')
      | (None, p') \<Rightarrow> pipeline p' us)"

section \<open>Properties\<close>

subsection \<open>Times made by \<open>Unix\<close> and compared with \<open>After\<close> and \<open>Before\<close>\<close>

lemma unixToInternal_eq: "unixToInternal = 62135596800"
  by (simp add: unixToInternal_def secondsPerDay_def)

lemma Unix_no_nsec: "Unix s 0 = \<lparr>wall = 0, ext = s + unixToInternal\<rparr>"
  by (simp add: Unix_def unixTime_def)

lemma sec_Unix: "sec (Unix s 0) = s + unixToInternal"
  by (simp add: Unix_no_nsec sec_def)

lemma nsec_Unix: "nsec (Unix s 0) = 0"
  by (simp add: Unix_no_nsec nsec_def)

lemma nsecMask_eq: "nsecMask = mask 30"
  by (simp add: nsecMask_def mask_eq_exp_minus_1)

lemma nsec_take_bit: "nsec t = ucast (take_bit 30 (wall t))"
  by (simp add: nsec_def nsecMask_eq take_bit_eq_mask)

lemma uint_nsec: "uint (nsec t) < 2 ^ 30"
proof -
  have "uint (nsec t) = take_bit 32 (take_bit 30 (uint (wall t)))"
    by (simp add: nsec_take_bit unsigned_ucast_eq unsigned_take_bit_eq)
  also have "\<dots> = take_bit 30 (uint (wall t))"
    by (simp add: take_bit_take_bit)
  also have "\<dots> < 2 ^ 30"
    by (rule take_bit_int_less_exp)
  finally show ?thesis .
qed

lemma sint_nsec: "sint (nsec t) = uint (nsec t)"
proof -
  have "uint (nsec t) < 2 ^ 31"
    using uint_nsec [of t] by simp
  moreover have "- (2 ^ 31) \<le> uint (nsec t)"
    by (rule order_trans [of _ 0]) simp_all
  ultimately have "signed_take_bit 31 (uint (nsec t)) = uint (nsec t)"
    by (rule signed_take_bit_int_eq_self [rotated])
  then show ?thesis
    by (simp add: sint_uint)
qed

lemma nsec_not_negative: "\<not> nsec t <s 0"
  by (simp add: word_sless_alt sint_nsec)

text \<open>
  A time made by \<open>Unix s 0\<close> has no monotonic reading, so both comparisons read
  seconds and nanoseconds: \<open>t\<close> is after it when \<open>t\<close> has more seconds, or the same
  seconds and some nanoseconds; \<open>t\<close> is before it when \<open>t\<close> has fewer seconds.
\<close>

lemma After_Unix_iff:
  "After t (Unix s 0) \<longleftrightarrow>
     s + unixToInternal <s sec t \<or> sec t = s + unixToInternal \<and> 0 <s nsec t"
  by (simp add: After_def sec_Unix nsec_Unix Let_def) (simp add: Unix_no_nsec)

lemma Before_Unix_iff: "Before t (Unix s 0) \<longleftrightarrow> sec t <s s + unixToInternal"
  by (simp add: Before_def sec_Unix nsec_Unix nsec_not_negative Let_def)
    (simp add: Unix_no_nsec)

text \<open>
  \<open>Unix\<close> adds \<open>unixToInternal\<close> to its seconds in \<^verbatim>\<open>int64\<close>. Up to
  \<open>9223371974719179007 = 2 ^ 63 - 1 - 62135596800\<close> seconds the sum is the exact one;
  past it the sum wraps around by \<open>2 ^ 64\<close>, and the time made lies before the times
  of small second counts.
\<close>

lemma sint_sec_Unix:
  assumes "sint s \<le> 9223371974719179007"
  shows "sint (sec (Unix s 0)) = sint s + 62135596800"
proof -
  have lower: "- (2 ^ 63) \<le> sint s"
    using sint_greater_eq [of s] by simp
  have "sint (s + 62135596800) = signed_take_bit 63 (sint s + 62135596800)"
    by (simp add: sint_word_ariths)
  also have "\<dots> = sint s + 62135596800"
    using assms lower by (intro signed_take_bit_int_eq_self) simp_all
  finally show ?thesis
    by (simp add: sec_Unix unixToInternal_eq)
qed

lemma Unix_wraps_around: "After (Unix 0 0) (Unix 9223372036854775807 0)"
  by (simp add: After_Unix_iff sec_Unix unixToInternal_eq)

lemma sint_add_unixToInternal:
  assumes "sint s \<le> 9223371974719179007"
  shows "sint (s + unixToInternal) = sint s + 62135596800"
  using sint_sec_Unix [OF assms] by (simp add: sec_Unix)

lemma sint_add_unixToInternal_wrapped:
  assumes "9223371974719179007 < sint (s :: int64)"
  shows "sint (s + unixToInternal) = sint s + 62135596800 - 2 ^ 64"
proof -
  have upper: "sint s < 2 ^ 63"
    using sint_less [of s] by simp
  have "s + 62135596800 = word_of_int (sint s + 62135596800 - 2 ^ 64)"
    by simp
  then have "sint (s + 62135596800) = signed_take_bit 63 (sint s + 62135596800 - 2 ^ 64)"
    by (simp only: sint_sbintrunc') simp
  also have "\<dots> = sint s + 62135596800 - 2 ^ 64"
    using assms upper by (intro signed_take_bit_int_eq_self) simp_all
  finally show ?thesis
    by (simp add: unixToInternal_eq)
qed

text \<open>
  With \<open>sint (sec t)\<close> the seconds of \<open>t\<close> since year 1 and \<open>62135596800\<close> those of the
  epoch: while the sum does not wrap, \<open>t\<close> is after \<open>Unix s 0\<close> exactly when \<open>t\<close> lies
  after the instant \<open>s\<close> seconds past the epoch, and before it exactly when \<open>t\<close> lies
  before that instant.
\<close>

lemma After_Unix_seconds:
  assumes "sint s \<le> 9223371974719179007"
  shows "After t (Unix s 0) \<longleftrightarrow>
     sint s + 62135596800 < sint (sec t) \<or>
     sint (sec t) = sint s + 62135596800 \<and> 0 < sint (nsec t)"
  by (simp add: After_Unix_iff word_sless_alt word_eq_iff_signed [where 'a = int]
      sint_add_unixToInternal [OF assms])

lemma Before_Unix_seconds:
  assumes "sint s \<le> 9223371974719179007"
  shows "Before t (Unix s 0) \<longleftrightarrow> sint (sec t) < sint s + 62135596800"
  by (simp add: Before_Unix_iff word_sless_alt sint_add_unixToInternal [OF assms])

subsection \<open>The audience loops\<close>

lemma AudienceValidator_inner_iff:
  "AudienceValidator_inner serverAud clientAuds \<longleftrightarrow> serverAud \<in> set clientAuds"
  by (induction clientAuds) auto

lemma AudienceValidator_outer_iff:
  "AudienceValidator_outer aud clientAuds \<longleftrightarrow> set aud \<inter> set clientAuds \<noteq> {}"
  by (induction aud) (auto simp: AudienceValidator_inner_iff)

text \<open>
  C1. For every whitelist \<open>W\<close> and every payload, the validator made by
  \<open>AudienceValidator W\<close> returns \<open>nil\<close> exactly when some string is an element of
  both \<open>W\<close> and the payload's audience (whatever the order of either sequence), and
  it returns \<open>ErrAudValidation\<close> in every other case.
\<close>

theorem AudienceValidator_intersection:
  "(fst (AudienceValidator W p) = None \<longleftrightarrow> set W \<inter> set (Audience p) \<noteq> {}) \<and>
   (fst (AudienceValidator W p) = Some ErrAudValidation \<longleftrightarrow> set W \<inter> set (Audience p) = {})"
  by (simp add: AudienceValidator_def AudienceValidator_outer_iff)

theorem AudienceValidator_intersection_witness:
  "fst (AudienceValidator [''svcB'', ''svcC'']
     \<lparr>Issuer = [], Subject = [], Audience = [''svcA'', ''svcB''], ExpirationTime = 0,
      IssuedAt = 0, NotBefore = 0, JWTID = []\<rparr>) = None \<and>
   fst (AudienceValidator [''svcB'']
     \<lparr>Issuer = [], Subject = [], Audience = [''svcX''], ExpirationTime = 0,
      IssuedAt = 0, NotBefore = 0, JWTID = []\<rparr>) = Some ErrAudValidation"
  using AudienceValidator_intersection [of "[''svcB'', ''svcC'']"
      "\<lparr>Issuer = [], Subject = [], Audience = [''svcA'', ''svcB''], ExpirationTime = 0,
        IssuedAt = 0, NotBefore = 0, JWTID = []\<rparr>"]
    AudienceValidator_intersection [of "[''svcB'']"
      "\<lparr>Issuer = [], Subject = [], Audience = [''svcX''], ExpirationTime = 0,
        IssuedAt = 0, NotBefore = 0, JWTID = []\<rparr>"]
  by simp

text \<open>
  C2 (as amended). For every reference time \<open>t\<close>, flag \<open>validateZero\<close> and payload whose
  \<open>ExpirationTime\<close> \<open>e\<close> is at most \<open>9223371974719179007\<close> (the largest second count that
  \<open>Unix\<close> converts without wrapping): when \<open>e\<close> is 0 and \<open>validateZero\<close> is false the
  validator made by \<open>ExpirationTimeValidator t validateZero\<close> returns \<open>nil\<close> whatever
  \<open>t\<close> is; in every other case it returns \<open>ErrExpValidation\<close> exactly when \<open>t\<close> is
  strictly after the instant \<open>e\<close> seconds past the epoch (more seconds, or the same
  seconds and some nanoseconds), and \<open>nil\<close> when it is not.
\<close>

theorem ExpirationTimeValidator_in_range:
  "sint (ExpirationTime p) \<le> 9223371974719179007 \<Longrightarrow>
   fst (ExpirationTimeValidator t validateZero p) =
     (if ExpirationTime p = 0 \<and> \<not> validateZero then None
      else if sint (ExpirationTime p) + 62135596800 < sint (sec t) \<or>
              sint (sec t) = sint (ExpirationTime p) + 62135596800 \<and> 0 < sint (nsec t)
           then Some ErrExpValidation
      else None)"
  by (simp add: ExpirationTimeValidator_def Let_def After_Unix_seconds)

theorem ExpirationTimeValidator_in_range_witness:
  "fst (ExpirationTimeValidator (Unix 2000 0) False
     \<lparr>Issuer = [], Subject = [], Audience = [], ExpirationTime = 1000,
      IssuedAt = 0, NotBefore = 0, JWTID = []\<rparr>) = Some ErrExpValidation \<and>
   fst (ExpirationTimeValidator (Unix 1000 0) False
     \<lparr>Issuer = [], Subject = [], Audience = [], ExpirationTime = 1000,
      IssuedAt = 0, NotBefore = 0, JWTID = []\<rparr>) = None \<and>
   fst (ExpirationTimeValidator (Unix 2000 0) False
     \<lparr>Issuer = [], Subject = [], Audience = [], ExpirationTime = 0,
      IssuedAt = 0, NotBefore = 0, JWTID = []\<rparr>) = None \<and>
   fst (ExpirationTimeValidator (Unix 2000 0) False
     \<lparr>Issuer = [], Subject = [], Audience = [], ExpirationTime = 9223371974719179007,
      IssuedAt = 0, NotBefore = 0, JWTID = []\<rparr>) = None"
  using ExpirationTimeValidator_in_range [of
      "\<lparr>Issuer = [], Subject = [], Audience = [], ExpirationTime = 1000,
        IssuedAt = 0, NotBefore = 0, JWTID = []\<rparr>" "Unix 2000 0" False]
    ExpirationTimeValidator_in_range [of
      "\<lparr>Issuer = [], Subject = [], Audience = [], ExpirationTime = 1000,
        IssuedAt = 0, NotBefore = 0, JWTID = []\<rparr>" "Unix 1000 0" False]
    ExpirationTimeValidator_in_range [of
      "\<lparr>Issuer = [], Subject = [], Audience = [], ExpirationTime = 0,
        IssuedAt = 0, NotBefore = 0, JWTID = []\<rparr>" "Unix 2000 0" False]
    ExpirationTimeValidator_in_range [of
      "\<lparr>Issuer = [], Subject = [], Audience = [], ExpirationTime = 9223371974719179007,
        IssuedAt = 0, NotBefore = 0, JWTID = []\<rparr>" "Unix 2000 0" False]
  by (simp add: sec_Unix nsec_Unix unixToInternal_eq)

text \<open>
  Past the bound the statement of the claim fails: a reference time
  \<open>1700000000\<close> seconds past the epoch lies before the expiration instant
  \<open>9223372036854775807\<close>, and the validator returns \<open>ErrExpValidation\<close>.
\<close>

theorem ExpirationTimeValidator_counterexample:
  "sint (sec (Unix 1700000000 0)) - 62135596800 <
     sint (ExpirationTime
       \<lparr>Issuer = [], Subject = [], Audience = [], ExpirationTime = 9223372036854775807,
        IssuedAt = 0, NotBefore = 0, JWTID = []\<rparr>) \<and>
   fst (ExpirationTimeValidator (Unix 1700000000 0) False
     \<lparr>Issuer = [], Subject = [], Audience = [], ExpirationTime = 9223372036854775807,
      IssuedAt = 0, NotBefore = 0, JWTID = []\<rparr>) = Some ErrExpValidation"
  by (simp add: ExpirationTimeValidator_def Let_def After_Unix_iff sec_Unix nsec_Unix
      unixToInternal_eq)

text \<open>
  C4 (as amended). For every reference time \<open>t\<close> and payload whose \<open>IssuedAt\<close> \<open>i\<close> is at
  most \<open>9223371974719179007\<close>, the validator made by \<open>IssuedAtValidator t\<close> returns
  \<open>ErrIatValidation\<close> exactly when \<open>t\<close> is strictly before the instant \<open>i\<close> seconds past
  the epoch and \<open>nil\<close> otherwise; an \<open>IssuedAt\<close> of 0 is compared like any other value.
\<close>

theorem IssuedAtValidator_in_range:
  "sint (IssuedAt p) \<le> 9223371974719179007 \<Longrightarrow>
   fst (IssuedAtValidator t p) =
     (if sint (sec t) < sint (IssuedAt p) + 62135596800 then Some ErrIatValidation
      else None)"
  by (simp add: IssuedAtValidator_def Before_Unix_seconds)

theorem IssuedAtValidator_in_range_witness:
  "fst (IssuedAtValidator (Unix 1000 0)
     \<lparr>Issuer = [], Subject = [], Audience = [], ExpirationTime = 0,
      IssuedAt = 2000, NotBefore = 0, JWTID = []\<rparr>) = Some ErrIatValidation \<and>
   fst (IssuedAtValidator (Unix 2000 0)
     \<lparr>Issuer = [], Subject = [], Audience = [], ExpirationTime = 0,
      IssuedAt = 2000, NotBefore = 0, JWTID = []\<rparr>) = None \<and>
   fst (IssuedAtValidator (Unix (- 1) 0)
     \<lparr>Issuer = [], Subject = [], Audience = [], ExpirationTime = 0,
      IssuedAt = 0, NotBefore = 0, JWTID = []\<rparr>) = Some ErrIatValidation \<and>
   fst (IssuedAtValidator (Unix 2000 0)
     \<lparr>Issuer = [], Subject = [], Audience = [], ExpirationTime = 0,
      IssuedAt = 9223371974719179007, NotBefore = 0, JWTID = []\<rparr>) = Some ErrIatValidation"
  using IssuedAtValidator_in_range [of
      "\<lparr>Issuer = [], Subject = [], Audience = [], ExpirationTime = 0,
        IssuedAt = 2000, NotBefore = 0, JWTID = []\<rparr>" "Unix 1000 0"]
    IssuedAtValidator_in_range [of
      "\<lparr>Issuer = [], Subject = [], Audience = [], ExpirationTime = 0,
        IssuedAt = 2000, NotBefore = 0, JWTID = []\<rparr>" "Unix 2000 0"]
    IssuedAtValidator_in_range [of
      "\<lparr>Issuer = [], Subject = [], Audience = [], ExpirationTime = 0,
        IssuedAt = 0, NotBefore = 0, JWTID = []\<rparr>" "Unix (- 1) 0"]
    IssuedAtValidator_in_range [of
      "\<lparr>Issuer = [], Subject = [], Audience = [], ExpirationTime = 0,
        IssuedAt = 9223371974719179007, NotBefore = 0, JWTID = []\<rparr>" "Unix 2000 0"]
  by (simp add: sec_Unix unixToInternal_eq)

text \<open>
  Past the bound the statement of the claim fails: a reference time
  \<open>1700000000\<close> seconds past the epoch lies before the issued-at instant
  \<open>9223372036854775807\<close>, and the validator returns \<open>nil\<close>.
\<close>

theorem IssuedAtValidator_counterexample:
  "sint (sec (Unix 1700000000 0)) - 62135596800 <
     sint (IssuedAt
       \<lparr>Issuer = [], Subject = [], Audience = [], ExpirationTime = 0,
        IssuedAt = 9223372036854775807, NotBefore = 0, JWTID = []\<rparr>) \<and>
   fst (IssuedAtValidator (Unix 1700000000 0)
     \<lparr>Issuer = [], Subject = [], Audience = [], ExpirationTime = 0,
      IssuedAt = 9223372036854775807, NotBefore = 0, JWTID = []\<rparr>) = None"
  by (simp add: IssuedAtValidator_def Before_Unix_iff sec_Unix unixToInternal_eq)

text \<open>
  C5 (as amended). For every reference time \<open>t\<close> and payload whose \<open>NotBefore\<close> \<open>n\<close> is at
  most \<open>9223371974719179007\<close>, the validator made by \<open>NotBeforeValidator t\<close> returns
  \<open>ErrNbfValidation\<close> exactly when \<open>t\<close> is strictly before the instant \<open>n\<close> seconds past
  the epoch and \<open>nil\<close> otherwise; a \<open>NotBefore\<close> of 0 is compared like any other value.
\<close>

theorem NotBeforeValidator_in_range:
  "sint (NotBefore p) \<le> 9223371974719179007 \<Longrightarrow>
   fst (NotBeforeValidator t p) =
     (if sint (sec t) < sint (NotBefore p) + 62135596800 then Some ErrNbfValidation
      else None)"
  by (simp add: NotBeforeValidator_def Before_Unix_seconds)

theorem NotBeforeValidator_in_range_witness:
  "fst (NotBeforeValidator (Unix 1000 0)
     \<lparr>Issuer = [], Subject = [], Audience = [], ExpirationTime = 0,
      IssuedAt = 0, NotBefore = 2000, JWTID = []\<rparr>) = Some ErrNbfValidation \<and>
   fst (NotBeforeValidator (Unix 2000 0)
     \<lparr>Issuer = [], Subject = [], Audience = [], ExpirationTime = 0,
      IssuedAt = 0, NotBefore = 2000, JWTID = []\<rparr>) = None \<and>
   fst (NotBeforeValidator (Unix (- 1) 0)
     \<lparr>Issuer = [], Subject = [], Audience = [], ExpirationTime = 0,
      IssuedAt = 0, NotBefore = 0, JWTID = []\<rparr>) = Some ErrNbfValidation \<and>
   fst (NotBeforeValidator (Unix 2000 0)
     \<lparr>Issuer = [], Subject = [], Audience = [], ExpirationTime = 0,
      IssuedAt = 0, NotBefore = 9223371974719179007, JWTID = []\<rparr>) = Some ErrNbfValidation"
  using NotBeforeValidator_in_range [of
      "\<lparr>Issuer = [], Subject = [], Audience = [], ExpirationTime = 0,
        IssuedAt = 0, NotBefore = 2000, JWTID = []\<rparr>" "Unix 1000 0"]
    NotBeforeValidator_in_range [of
      "\<lparr>Issuer = [], Subject = [], Audience = [], ExpirationTime = 0,
        IssuedAt = 0, NotBefore = 2000, JWTID = []\<rparr>" "Unix 2000 0"]
    NotBeforeValidator_in_range [of
      "\<lparr>Issuer = [], Subject = [], Audience = [], ExpirationTime = 0,
        IssuedAt = 0, NotBefore = 0, JWTID = []\<rparr>" "Unix (- 1) 0"]
    NotBeforeValidator_in_range [of
      "\<lparr>Issuer = [], Subject = [], Audience = [], ExpirationTime = 0,
        IssuedAt = 0, NotBefore = 9223371974719179007, JWTID = []\<rparr>" "Unix 2000 0"]
  by (simp add: sec_Unix unixToInternal_eq)

text \<open>
  Past the bound the statement of the claim fails, from the first second on: a
  reference time \<open>1700000000\<close> seconds past the epoch lies before the not-before
  instant \<open>9223371974719179008\<close>, and the validator returns \<open>nil\<close>.
\<close>

theorem NotBeforeValidator_counterexample:
  "sint (sec (Unix 1700000000 0)) - 62135596800 <
     sint (NotBefore
       \<lparr>Issuer = [], Subject = [], Audience = [], ExpirationTime = 0,
        IssuedAt = 0, NotBefore = 9223371974719179008, JWTID = []\<rparr>) \<and>
   fst (NotBeforeValidator (Unix 1700000000 0)
     \<lparr>Issuer = [], Subject = [], Audience = [], ExpirationTime = 0,
      IssuedAt = 0, NotBefore = 9223371974719179008, JWTID = []\<rparr>) = None"
  by (simp add: NotBeforeValidator_def Before_Unix_iff sec_Unix unixToInternal_eq)

text \<open>
  C6. For every expected string \<open>s\<close> and payload, the validators made by
  \<open>IssuerValidator s\<close>, \<open>SubjectValidator s\<close> and \<open>JWTIDValidator s\<close> return \<open>nil\<close> when
  the payload's \<open>Issuer\<close>, \<open>Subject\<close>, \<open>JWTID\<close> equals \<open>s\<close>, and the error of their
  claim when it differs; an empty \<open>s\<close> is compared like any other string.
\<close>

theorem string_validators_result:
  "fst (IssuerValidator s p) = (if Issuer p = s then None else Some ErrIssValidation) \<and>
   fst (SubjectValidator s p) = (if Subject p = s then None else Some ErrSubValidation) \<and>
   fst (JWTIDValidator s p) = (if JWTID p = s then None else Some ErrJtiValidation)"
  by (simp add: IssuerValidator_def SubjectValidator_def JWTIDValidator_def)

theorem string_validators_result_witness:
  "fst (IssuerValidator ''auth.example.com''
     \<lparr>Issuer = ''auth.example.com'', Subject = [], Audience = [], ExpirationTime = 0,
      IssuedAt = 0, NotBefore = 0, JWTID = []\<rparr>) = None \<and>
   fst (IssuerValidator ''other.example.com''
     \<lparr>Issuer = ''auth.example.com'', Subject = [], Audience = [], ExpirationTime = 0,
      IssuedAt = 0, NotBefore = 0, JWTID = []\<rparr>) = Some ErrIssValidation \<and>
   fst (SubjectValidator []
     \<lparr>Issuer = ''auth.example.com'', Subject = [], Audience = [], ExpirationTime = 0,
      IssuedAt = 0, NotBefore = 0, JWTID = []\<rparr>) = None \<and>
   fst (JWTIDValidator ''id''
     \<lparr>Issuer = ''auth.example.com'', Subject = [], Audience = [], ExpirationTime = 0,
      IssuedAt = 0, NotBefore = 0, JWTID = []\<rparr>) = Some ErrJtiValidation"
  using string_validators_result [of "''auth.example.com''"
      "\<lparr>Issuer = ''auth.example.com'', Subject = [], Audience = [], ExpirationTime = 0,
        IssuedAt = 0, NotBefore = 0, JWTID = []\<rparr>"]
    string_validators_result [of "''other.example.com''"
      "\<lparr>Issuer = ''auth.example.com'', Subject = [], Audience = [], ExpirationTime = 0,
        IssuedAt = 0, NotBefore = 0, JWTID = []\<rparr>"]
    string_validators_result [of "[]"
      "\<lparr>Issuer = ''auth.example.com'', Subject = [], Audience = [], ExpirationTime = 0,
        IssuedAt = 0, NotBefore = 0, JWTID = []\<rparr>"]
    string_validators_result [of "''id''"
      "\<lparr>Issuer = ''auth.example.com'', Subject = [], Audience = [], ExpirationTime = 0,
        IssuedAt = 0, NotBefore = 0, JWTID = []\<rparr>"]
  by simp

text \<open>
  C7. The package declares exactly seven error values and they are pairwise
  different; every validator returns either \<open>nil\<close> or the one error of its own claim
  (the audience validator \<open>ErrAudValidation\<close>, the expiration validator
  \<open>ErrExpValidation\<close>, and so on), never another error.
\<close>

theorem claim_errors_distinct:
  "length package_errors = 7 \<and> distinct package_errors \<and>
   fst (AudienceValidator W p) \<in> {None, Some ErrAudValidation} \<and>
   fst (ExpirationTimeValidator t z p) \<in> {None, Some ErrExpValidation} \<and>
   fst (IssuedAtValidator t p) \<in> {None, Some ErrIatValidation} \<and>
   fst (IssuerValidator s p) \<in> {None, Some ErrIssValidation} \<and>
   fst (JWTIDValidator s p) \<in> {None, Some ErrJtiValidation} \<and>
   fst (NotBeforeValidator t p) \<in> {None, Some ErrNbfValidation} \<and>
   fst (SubjectValidator s p) \<in> {None, Some ErrSubValidation}"
  by (simp add: package_errors_def ErrAudValidation_def ErrExpValidation_def
      ErrIatValidation_def ErrIssValidation_def ErrJtiValidation_def ErrNbfValidation_def
      ErrSubValidation_def AudienceValidator_def ExpirationTimeValidator_def
      IssuedAtValidator_def IssuerValidator_def JWTIDValidator_def NotBeforeValidator_def
      SubjectValidator_def Let_def)

text \<open>
  C8. For every configured unit (the closure of any of the seven factories, with
  any captured values), every payload and any two readings of the wall clock: a
  second call, made on the closure and the payload as the first call left them,
  returns the error the first call returned; both calls leave the captured values
  as they were; and a call at the other clock reading returns the same error, so
  the result depends on the captured values and the payload only.
\<close>

theorem call_repeatable:
  assumes "call c clock1 p = (err1, c1, p1)"
    and "call c1 clock2 p1 = (err2, c2, p2)"
  shows "err2 = err1 \<and> c1 = c \<and> c2 = c \<and> fst (call c clock2 p) = err1"
  using assms
  by (cases c)
    (auto simp: AudienceValidator_def ExpirationTimeValidator_def IssuedAtValidator_def
      IssuerValidator_def JWTIDValidator_def NotBeforeValidator_def SubjectValidator_def
      Let_def split: if_splits)

theorem call_repeatable_witness:
  "call (ExpirationTimeValidator_closure (Unix 2000 0) False) (Unix 3000 0)
     \<lparr>Issuer = [], Subject = [], Audience = [], ExpirationTime = 1000,
      IssuedAt = 0, NotBefore = 0, JWTID = []\<rparr>
   = (Some ErrExpValidation, ExpirationTimeValidator_closure (Unix 2000 0) False,
      \<lparr>Issuer = [], Subject = [], Audience = [], ExpirationTime = 1000,
       IssuedAt = 0, NotBefore = 0, JWTID = []\<rparr>) \<and>
   fst (call (ExpirationTimeValidator_closure (Unix 2000 0) False) (Unix 4000 0)
     \<lparr>Issuer = [], Subject = [], Audience = [], ExpirationTime = 1000,
      IssuedAt = 0, NotBefore = 0, JWTID = []\<rparr>) = Some ErrExpValidation"
  using call_repeatable [of "ExpirationTimeValidator_closure (Unix 2000 0) False"
      "Unix 3000 0"
      "\<lparr>Issuer = [], Subject = [], Audience = [], ExpirationTime = 1000,
        IssuedAt = 0, NotBefore = 0, JWTID = []\<rparr>"
      "Some ErrExpValidation"
      "ExpirationTimeValidator_closure (Unix 2000 0) False"
      "\<lparr>Issuer = [], Subject = [], Audience = [], ExpirationTime = 1000,
        IssuedAt = 0, NotBefore = 0, JWTID = []\<rparr>"
      "Unix 4000 0"
      "Some ErrExpValidation"
      "ExpirationTimeValidator_closure (Unix 2000 0) False"
      "\<lparr>Issuer = [], Subject = [], Audience = [], ExpirationTime = 1000,
        IssuedAt = 0, NotBefore = 0, JWTID = []\<rparr>"]
  by (simp add: ExpirationTimeValidator_def Let_def After_Unix_iff sec_Unix nsec_Unix
      unixToInternal_eq)

text \<open>
  C9. For each of the seven factories, every configuration and every payload: the
  call leaves the payload, and so each of its seven fields, as it was.
\<close>

theorem validators_leave_payload:
  "snd (AudienceValidator W p) = p \<and>
   snd (ExpirationTimeValidator t z p) = p \<and>
   snd (IssuedAtValidator t p) = p \<and>
   snd (IssuerValidator s p) = p \<and>
   snd (JWTIDValidator s p) = p \<and>
   snd (NotBeforeValidator t p) = p \<and>
   snd (SubjectValidator s p) = p"
  by (simp add: AudienceValidator_def ExpirationTimeValidator_def
      IssuedAtValidator_def IssuerValidator_def JWTIDValidator_def NotBeforeValidator_def
      SubjectValidator_def Let_def)

text \<open>
  C10. When \<open>validateZero\<close> is true and the payload's \<open>ExpirationTime\<close> is 0, the
  validator made by \<open>ExpirationTimeValidator t True\<close> returns \<open>ErrExpValidation\<close> exactly
  when \<open>t\<close> is after \<open>Unix 0 0\<close>, the epoch, and \<open>nil\<close> otherwise: the zero is not
  skipped. \<open>t\<close> is after the epoch exactly when its seconds exceed those of the
  epoch, or equal them with some nanoseconds, so every reference time later than
  1970 fails.
\<close>

theorem ExpirationTimeValidator_zero_validated:
  "ExpirationTime p = 0 \<Longrightarrow>
     fst (ExpirationTimeValidator t True p) =
       (if After t (Unix 0 0) then Some ErrExpValidation else None) \<and>
     (After t (Unix 0 0) \<longleftrightarrow>
        unixToInternal <s sec t \<or> sec t = unixToInternal \<and> 0 <s nsec t)"
  using After_Unix_iff [of t 0]
  by (simp add: ExpirationTimeValidator_def Let_def)

theorem ExpirationTimeValidator_zero_validated_witness:
  "fst (ExpirationTimeValidator (Unix 1700000000 0) True
     \<lparr>Issuer = ''a'', Subject = ''b'', Audience = [], ExpirationTime = 0,
      IssuedAt = 0, NotBefore = 0, JWTID = ''c''\<rparr>) = Some ErrExpValidation \<and>
   fst (ExpirationTimeValidator (Unix 0 0) True
     \<lparr>Issuer = ''a'', Subject = ''b'', Audience = [], ExpirationTime = 0,
      IssuedAt = 0, NotBefore = 0, JWTID = ''c''\<rparr>) = None"
  using ExpirationTimeValidator_zero_validated [of
      "\<lparr>Issuer = ''a'', Subject = ''b'', Audience = [], ExpirationTime = 0,
        IssuedAt = 0, NotBefore = 0, JWTID = ''c''\<rparr>" "Unix 1700000000 0"]
    ExpirationTimeValidator_zero_validated [of
      "\<lparr>Issuer = ''a'', Subject = ''b'', Audience = [], ExpirationTime = 0,
        IssuedAt = 0, NotBefore = 0, JWTID = ''c''\<rparr>" "Unix 0 0"]
  by (simp add: sec_Unix nsec_Unix unixToInternal_eq)

subsection \<open>The pipeline\<close>

lemma pipeline_append:
  "pipeline p (xs @ ys) =
     (case pipeline p xs of (None, p1) \<Rightarrow> pipeline p1 ys | (Some e, p1) \<Rightarrow> (Some e, p1))"
  by (induction xs arbitrary: p) (auto split: prod.splits option.splits)

lemma pipeline_all_pass:
  "(\<forall>j<length us. fst ((us ! j) (foldl (\<lambda>q u. snd (u q)) p (take j us))) = None)
   \<Longrightarrow> pipeline p us = (None, foldl (\<lambda>q u. snd (u q)) p us)"
proof (induction us arbitrary: p)
  case Nil
  show ?case by simp
next
  case (Cons u us)
  from Cons.prems have "fst (u p) = None"
    by (auto dest: spec [of _ 0])
  then obtain q where up: "u p = (None, q)"
    by (cases "u p") simp
  have "\<forall>j<length us. fst ((us ! j) (foldl (\<lambda>q u. snd (u q)) q (take j us))) = None"
  proof (intro allI impI)
    fix j assume "j < length us"
    with Cons.prems up show "fst ((us ! j) (foldl (\<lambda>q u. snd (u q)) q (take j us))) = None"
      by (auto dest: spec [of _ "Suc j"])
  qed
  then have "pipeline q us = (None, foldl (\<lambda>q u. snd (u q)) q us)"
    by (rule Cons.IH)
  with up show ?case by simp
qed

lemma pipeline_first_failure:
  assumes i: "i < length us"
    and pass: "\<forall>j<i. fst ((us ! j) (foldl (\<lambda>q u. snd (u q)) p (take j us))) = None"
    and fail: "(us ! i) (foldl (\<lambda>q u. snd (u q)) p (take i us)) = (Some e, p')"
  shows "pipeline p us = (Some e, p')"
proof -
  let ?pre = "take i us"
  have "\<forall>j<length ?pre. fst ((?pre ! j) (foldl (\<lambda>q u. snd (u q)) p (take j ?pre))) = None"
    using i pass by (simp add: min_def)
  then have pre: "pipeline p ?pre = (None, foldl (\<lambda>q u. snd (u q)) p ?pre)"
    by (rule pipeline_all_pass)
  have "us = ?pre @ us ! i # drop (Suc i) us"
    using i by (simp add: id_take_nth_drop)
  then have "pipeline p us = pipeline p (?pre @ us ! i # drop (Suc i) us)"
    by simp
  also have "\<dots> = (Some e, p')"
    by (simp only: pipeline_append pre) (simp add: fail)
  finally show ?thesis .
qed

text \<open>
  C3. For every payload and every sequence of units \<open>us\<close>: when the units before
  position \<open>i\<close> return \<open>nil\<close>, each on the payload as its predecessors left it, and the
  unit at \<open>i\<close> returns an error, the pipeline returns exactly that error and the
  payload as unit \<open>i\<close> left it, so no later unit has run; when every unit returns
  \<open>nil\<close> the pipeline returns \<open>nil\<close>.
\<close>

theorem pipeline_fail_fast:
  "(i < length us \<and>
    (\<forall>j<i. fst ((us ! j) (foldl (\<lambda>q u. snd (u q)) p (take j us))) = None) \<and>
    (us ! i) (foldl (\<lambda>q u. snd (u q)) p (take i us)) = (Some e, p')
      \<longrightarrow> pipeline p us = (Some e, p')) \<and>
   ((\<forall>j<length us. fst ((us ! j) (foldl (\<lambda>q u. snd (u q)) p (take j us))) = None)
      \<longrightarrow> pipeline p us = (None, foldl (\<lambda>q u. snd (u q)) p us))"
  using pipeline_first_failure [of i us p e p'] pipeline_all_pass [of us p]
  by blast

theorem pipeline_fail_fast_witness:
  "pipeline \<lparr>Issuer = ''a'', Subject = ''b'', Audience = [], ExpirationTime = 0,
      IssuedAt = 0, NotBefore = 0, JWTID = ''c''\<rparr>
     [\<lambda>p. (Some ErrIssValidation, p\<lparr>NotBefore := NotBefore p + 1\<rparr>),
      \<lambda>p. (Some ErrSubValidation, p\<lparr>NotBefore := NotBefore p + 1\<rparr>)]
   = (Some ErrIssValidation,
      \<lparr>Issuer = ''a'', Subject = ''b'', Audience = [], ExpirationTime = 0,
       IssuedAt = 0, NotBefore = 1, JWTID = ''c''\<rparr>) \<and>
   pipeline \<lparr>Issuer = ''a'', Subject = ''b'', Audience = [], ExpirationTime = 0,
      IssuedAt = 0, NotBefore = 0, JWTID = ''c''\<rparr>
     [IssuerValidator ''a'', SubjectValidator ''b'']
   = (None,
      \<lparr>Issuer = ''a'', Subject = ''b'', Audience = [], ExpirationTime = 0,
       IssuedAt = 0, NotBefore = 0, JWTID = ''c''\<rparr>) \<and>
   pipeline \<lparr>Issuer = ''a'', Subject = ''b'', Audience = [], ExpirationTime = 0,
      IssuedAt = 0, NotBefore = 0, JWTID = ''c''\<rparr>
     [IssuerValidator ''x'', SubjectValidator ''y'']
   = (Some ErrIssValidation,
      \<lparr>Issuer = ''a'', Subject = ''b'', Audience = [], ExpirationTime = 0,
       IssuedAt = 0, NotBefore = 0, JWTID = ''c''\<rparr>)"
  using pipeline_fail_fast [of 0
      "[\<lambda>p. (Some ErrIssValidation, p\<lparr>NotBefore := NotBefore p + 1\<rparr>),
        \<lambda>p. (Some ErrSubValidation, p\<lparr>NotBefore := NotBefore p + 1\<rparr>)]"
      "\<lparr>Issuer = ''a'', Subject = ''b'', Audience = [], ExpirationTime = 0,
        IssuedAt = 0, NotBefore = 0, JWTID = ''c''\<rparr>"
      ErrIssValidation
      "\<lparr>Issuer = ''a'', Subject = ''b'', Audience = [], ExpirationTime = 0,
        IssuedAt = 0, NotBefore = 1, JWTID = ''c''\<rparr>"]
    pipeline_fail_fast [of 0 "[IssuerValidator ''a'', SubjectValidator ''b'']"
      "\<lparr>Issuer = ''a'', Subject = ''b'', Audience = [], ExpirationTime = 0,
        IssuedAt = 0, NotBefore = 0, JWTID = ''c''\<rparr>" ErrIssValidation
      "\<lparr>Issuer = ''a'', Subject = ''b'', Audience = [], ExpirationTime = 0,
        IssuedAt = 0, NotBefore = 0, JWTID = ''c''\<rparr>"]
    pipeline_fail_fast [of 0 "[IssuerValidator ''x'', SubjectValidator ''y'']"
      "\<lparr>Issuer = ''a'', Subject = ''b'', Audience = [], ExpirationTime = 0,
        IssuedAt = 0, NotBefore = 0, JWTID = ''c''\<rparr>" ErrIssValidation
      "\<lparr>Issuer = ''a'', Subject = ''b'', Audience = [], ExpirationTime = 0,
        IssuedAt = 0, NotBefore = 0, JWTID = ''c''\<rparr>"]
  by (simp add: IssuerValidator_def SubjectValidator_def)

end
